theory Spec2Isabelle
  imports Complex_Main
begin

section \<open>JavaScript values\<close>

text \<open>
  The values that reach the engine of \<^verbatim>\<open>src/index.js\<close>: \<^verbatim>\<open>undefined\<close>,
  \<^verbatim>\<open>null\<close>, booleans, numbers and arrays. A number is a real (the doubles of
  JavaScript without rounding; \<^verbatim>\<open>-0\<close> is \<^verbatim>\<open>0\<close>) or \<^verbatim>\<open>NaN\<close>. Where the code
  stores numbers in a \<^verbatim>\<open>Float32Array\<close>, the rounding to single precision is kept, as
  a parameter.
\<close>

datatype jsval =
    Undefined
  | Null
  | Bool bool
  | Num real
  | NaN
  | Arr "jsval list"

text \<open>ToBoolean, as \<^verbatim>\<open>||\<close>, \<^verbatim>\<open>if\<close> and \<^verbatim>\<open>?:\<close> apply it.\<close>

fun truthy :: "jsval \<Rightarrow> bool" where
  "truthy Undefined = False"
| "truthy Null = False"
| "truthy (Bool b) = b"
| "truthy (Num r) = (r \<noteq> 0)"
| "truthy NaN = False"
| "truthy (Arr xs) = True"

text \<open>\<^verbatim>\<open>a || b\<close> on values (the right operand has no effect in this file's uses).\<close>

definition js_or :: "jsval \<Rightarrow> jsval \<Rightarrow> jsval" where
  "js_or a b = (if truthy a then a else b)"

text \<open>
  ToNumber. An array goes through its string: \<^verbatim>\<open>[]\<close> is \<^verbatim>\<open>0\<close>, a one-element
  array is its element's string read back (\<^verbatim>\<open>undefined\<close> and \<^verbatim>\<open>null\<close> print as
  the empty string, a boolean prints as a word), a longer array has a comma.
\<close>

fun to_number :: "jsval \<Rightarrow> jsval" where
  "to_number Undefined = NaN"
| "to_number Null = Num 0"
| "to_number (Bool b) = Num (if b then 1 else 0)"
| "to_number (Num r) = Num r"
| "to_number NaN = NaN"
| "to_number (Arr []) = Num 0"
| "to_number (Arr [Undefined]) = Num 0"
| "to_number (Arr [Null]) = Num 0"
| "to_number (Arr [Bool b]) = NaN"
| "to_number (Arr [Num r]) = Num r"
| "to_number (Arr [NaN]) = NaN"
| "to_number (Arr [Arr ys]) = to_number (Arr ys)"
| "to_number (Arr (x # y # zs)) = NaN"

text \<open>\<^verbatim>\<open>a * b\<close>.\<close>

definition js_mul :: "jsval \<Rightarrow> jsval \<Rightarrow> jsval" where
  "js_mul a b =
     (case (to_number a, to_number b) of
        (Num x, Num y) \<Rightarrow> Num (x * y)
      | _ \<Rightarrow> NaN)"

datatype error = TypeError

text \<open>
  \<^verbatim>\<open>x.length\<close>: reading a property of \<^verbatim>\<open>undefined\<close> or \<^verbatim>\<open>null\<close> throws; a
  boolean or a number has no such property; an array has its length.
\<close>

fun js_length :: "jsval \<Rightarrow> error + jsval" where
  "js_length Undefined = Inl TypeError"
| "js_length Null = Inl TypeError"
| "js_length (Arr xs) = Inr (Num (real (length xs)))"
| "js_length v = Inr Undefined"

text \<open>\<^verbatim>\<open>arr[i]\<close> on an array: \<^verbatim>\<open>undefined\<close> past the end.\<close>

fun js_index :: "jsval \<Rightarrow> nat \<Rightarrow> jsval" where
  "js_index (Arr xs) i = (if i < length xs then xs ! i else Undefined)"
| "js_index v i = Undefined"

type_synonym vec3 = "real \<times> real \<times> real"

text \<open>A three-element array of numbers.\<close>

fun vec3_val :: "vec3 \<Rightarrow> jsval" where
  "vec3_val (x, y, z) = Arr [Num x, Num y, Num z]"

text \<open>\<^verbatim>\<open>Math.floor\<close> on a number.\<close>

definition math_floor :: "real \<Rightarrow> real" where
  "math_floor r = of_int \<lfloor>r\<rfloor>"

section \<open>Option objects and \<^verbatim>\<open>extend\<close>\<close>

text \<open>
  A plain object is an association list from property names to values; a property
  that is not there reads as \<^verbatim>\<open>undefined\<close>.
\<close>

type_synonym obj = "(string \<times> jsval) list"

definition get_prop :: "obj \<Rightarrow> string \<Rightarrow> jsval" where
  "get_prop ob k = (case map_of ob k of None \<Rightarrow> Undefined | Some v \<Rightarrow> v)"

fun set_prop :: "string \<Rightarrow> jsval \<Rightarrow> obj \<Rightarrow> obj" where
  "set_prop k v [] = [(k, v)]"
| "set_prop k v ((k', v') # ps) =
     (if k = k' then (k, v) # ps else (k', v') # set_prop k v ps)"

text \<open>
  \<^verbatim>\<open>extend(target, source)\<close> of the npm package \<^verbatim>\<open>extend\<close> (the port of
  jQuery's): it writes every property of the source whose value is not
  \<^verbatim>\<open>undefined\<close> into the target object itself and returns the target. A source
  that is \<^verbatim>\<open>undefined\<close> or \<^verbatim>\<open>null\<close> (\<open>None\<close>) is skipped.
\<close>

fun extend_props :: "obj \<Rightarrow> obj \<Rightarrow> obj" where
  "extend_props target [] = target"
| "extend_props target ((k, v) # ps) =
     extend_props (if v = Undefined then target else set_prop k v target) ps"

definition extend_obj :: "obj \<Rightarrow> obj option \<Rightarrow> obj" where
  "extend_obj target source = (case source of None \<Rightarrow> target | Some ps \<Rightarrow> extend_props target ps)"

text \<open>The module-level \<^verbatim>\<open>defaults\<close> object as the file declares it.\<close>

definition defaults :: obj where
  "defaults =
     [(''playerHeight'', Num 1.8),
      (''playerWidth'', Num 0.6),
      (''playerStart'', Arr [Num 0, Num 10, Num 0]),
      (''playerAutoStep'', Bool False),
      (''tickRate'', Num 30)]"

section \<open>Collaborators\<close>

text \<open>
  The engine calls its subsystems (\<^verbatim>\<open>./lib/*\<close>), the event emitter and the global
  object. Every call that can change something is an event; the engine's log keeps
  them in the order they are made.
\<close>

datatype event =
    CreateContainer obj
  | CreateInputs obj
  | CreateRegistry obj
  | CreateWorld obj
  | CreateRendering obj
  | CreatePhysics obj
  | CreateControls obj
  | SetCameraAccessor
  | CreateEntities obj
  | EntitiesAdd jsval jsval jsval
  | SetGravityMultiplier jsval
  | SetAutoStep jsval
  | SetOnStep
  | ControlsSetTarget
  | SetWindowGlobals
  | InputsBind string string
  | InputsDownOn string
  | WorldTick jsval
  | RenderingTick jsval
  | ControlsTickZoom jsval
  | ControlsTickPhysics jsval
  | PhysicsTick jsval
  | EntitiesTick jsval
  | Emit string jsval
  | ControlsTickCamera
  | InputsStateSet string jsval
  | UpdateEntitiesForRender jsval
  | RenderingRender jsval
  | WorldSetBlockID jsval jsval jsval jsval
  | HighlightBlockFace jsval jsval jsval
  | SetPlayerMesh jsval jsval

text \<open>
  What the subsystems do is not in \<^verbatim>\<open>src/index.js\<close>, so it is a parameter: \<open>'w\<close> is
  the state of everything outside the engine object, \<open>react\<close> is what a call does to
  it, and the other fields are the queries the engine reads, each a function of that
  state. \<open>raycast\<close> is \<^verbatim>\<open>voxel-raycast\<close>: given the block query, the origin, the
  direction and the distance it returns its result and what it left in the two output
  buffers (it writes three numbers into each on a hit). \<open>vec3_fromValues\<close> is
  \<^verbatim>\<open>vec3.fromValues\<close> of \<^verbatim>\<open>gl-vec3\<close>: the \<^verbatim>\<open>Float32Array\<close> of three numbers, which
  holds them in single precision.
\<close>

record 'w collab =
  react :: "event \<Rightarrow> 'w \<Rightarrow> 'w"
  hasPointerLock :: "'w \<Rightarrow> jsval"
  supportsPointerLock :: "'w \<Rightarrow> jsval"
  inputs_state_fire :: "'w \<Rightarrow> jsval"
  isTerrainBlocked :: "'w \<Rightarrow> jsval \<Rightarrow> jsval \<Rightarrow> jsval \<Rightarrow> jsval"
  getBlockID :: "'w \<Rightarrow> jsval \<Rightarrow> jsval \<Rightarrow> jsval \<Rightarrow> jsval"
  getBlockSolidity :: "'w \<Rightarrow> jsval \<Rightarrow> jsval \<Rightarrow> jsval \<Rightarrow> jsval"
  playerEntity_getPosition :: "'w \<Rightarrow> vec3"
  playerEntity_bb_vec :: "'w \<Rightarrow> vec3"
  rendering_getCameraVector :: "'w \<Rightarrow> vec3"
  raycast :: "(jsval \<Rightarrow> jsval \<Rightarrow> jsval \<Rightarrow> jsval) \<Rightarrow> jsval \<Rightarrow> jsval \<Rightarrow> jsval
                \<Rightarrow> jsval \<times> vec3 \<times> vec3"
  vec3_fromValues :: "real \<Rightarrow> real \<Rightarrow> real \<Rightarrow> vec3"

section \<open>The engine\<close>

text \<open>
  The fields of the engine object that \<^verbatim>\<open>src/index.js\<close> reads and writes, the state
  of the collaborators, and the log of the calls made to them.
\<close>

record 'w engine =
  tickRate :: jsval
  blockTestDistance :: jsval
  blockTargetLoc :: jsval
  blockPlacementLoc :: jsval
  ext :: 'w
  calls :: "event list"

definition call :: "'w collab \<Rightarrow> event \<Rightarrow> 'w engine \<Rightarrow> 'w engine" where
  "call c e s = s\<lparr>ext := react c e (ext s), calls := calls s @ [e]\<rparr>"

fun call_all :: "'w collab \<Rightarrow> event list \<Rightarrow> 'w engine \<Rightarrow> 'w engine" where
  "call_all c [] s = s"
| "call_all c (e # es) s = call_all c es (call c e s)"

text \<open>
  \<^verbatim>\<open>function Engine(opts)\<close>. The module's \<^verbatim>\<open>defaults\<close> object is an argument and a
  result: \<^verbatim>\<open>extend(defaults, opts)\<close> writes into it, and \<^verbatim>\<open>opts\<close> is that same
  object from then on. \<open>w0\<close> is the state of the world outside before the call.
  (Called without \<^verbatim>\<open>new\<close>, the function calls itself with \<^verbatim>\<open>new\<close> and the same
  argument.)
\<close>

definition Engine :: "'w collab \<Rightarrow> 'w \<Rightarrow> obj \<Rightarrow> obj option \<Rightarrow> obj \<times> 'w engine" where
  "Engine c w0 dflts opts_arg =
     (let opts = extend_obj dflts opts_arg;
          s0 = \<lparr>tickRate = get_prop opts ''tickRate'',
                blockTestDistance = Undefined,
                blockTargetLoc = Undefined,
                blockPlacementLoc = Undefined,
                ext = w0,
                calls = []\<rparr>;
          s1 = call_all c
                 [CreateContainer opts,
                  CreateInputs opts,
                  CreateRegistry opts,
                  CreateWorld opts,
                  CreateRendering opts,
                  CreatePhysics opts,
                  CreateControls opts,
                  SetCameraAccessor,
                  CreateEntities opts,
                  EntitiesAdd (get_prop opts ''playerStart'') (get_prop opts ''playerWidth'')
                    (get_prop opts ''playerHeight''),
                  SetGravityMultiplier (Num 2),
                  SetAutoStep (get_prop opts ''playerAutoStep'')] s0;
          s2 = (if truthy (get_prop opts ''playerAutoStep'') then call c SetOnStep s1 else s1);
          s3 = call c ControlsSetTarget s2;
          s4 = s3\<lparr>blockTestDistance := js_or (get_prop opts ''blockTestDistance'') (Num 10)\<rparr>;
          s5 = call_all c
                 [SetWindowGlobals, InputsBind ''debug'' ''Z'', InputsDownOn ''debug''] s4
      in (opts, s5))"

text \<open>
  The two bound ray queries: \<^verbatim>\<open>_traceWorldRay\<close> asks the world for block ids,
  \<^verbatim>\<open>_traceWorldRayCollision\<close> for solidity.
\<close>

definition traceWorldRay ::
  "'w collab \<Rightarrow> 'w engine \<Rightarrow> jsval \<Rightarrow> jsval \<Rightarrow> jsval \<Rightarrow> jsval \<times> vec3 \<times> vec3" where
  "traceWorldRay c s = raycast c (getBlockID c (ext s))"

definition traceWorldRayCollision ::
  "'w collab \<Rightarrow> 'w engine \<Rightarrow> jsval \<Rightarrow> jsval \<Rightarrow> jsval \<Rightarrow> jsval \<times> vec3 \<times> vec3" where
  "traceWorldRayCollision c s = raycast c (getBlockSolidity c (ext s))"

subsection \<open>Block access\<close>

text \<open>\<^verbatim>\<open>var arr = (x.length) ? x : [x,y,z]\<close>, the first line of the three block functions.\<close>

definition arg_array :: "jsval \<Rightarrow> jsval \<Rightarrow> jsval \<Rightarrow> error + jsval" where
  "arg_array x y z =
     (case js_length x of
        Inl e \<Rightarrow> Inl e
      | Inr l \<Rightarrow> Inr (if truthy l then x else Arr [x, y, z]))"

definition getBlock :: "'w collab \<Rightarrow> 'w engine \<Rightarrow> jsval \<Rightarrow> jsval \<Rightarrow> jsval \<Rightarrow> error + jsval" where
  "getBlock c s x y z =
     (case arg_array x y z of
        Inl e \<Rightarrow> Inl e
      | Inr arr \<Rightarrow>
          Inr (getBlockID c (ext s) (js_index arr 0) (js_index arr 1) (js_index arr 2)))"

definition setBlock ::
  "'w collab \<Rightarrow> jsval \<Rightarrow> jsval \<Rightarrow> jsval \<Rightarrow> jsval \<Rightarrow> 'w engine \<Rightarrow> error + 'w engine" where
  "setBlock c bid x y z s =
     (case arg_array x y z of
        Inl e \<Rightarrow> Inl e
      | Inr arr \<Rightarrow>
          Inr (call c (WorldSetBlockID bid (js_index arr 0) (js_index arr 1) (js_index arr 2)) s))"

definition addBlock ::
  "'w collab \<Rightarrow> jsval \<Rightarrow> jsval \<Rightarrow> jsval \<Rightarrow> jsval \<Rightarrow> 'w engine \<Rightarrow> error + 'w engine" where
  "addBlock c bid x y z s =
     (case arg_array x y z of
        Inl e \<Rightarrow> Inl e
      | Inr arr \<Rightarrow>
          if truthy (isTerrainBlocked c (ext s) (js_index arr 0) (js_index arr 1) (js_index arr 2))
          then Inr s
          else Inr (call c
                 (WorldSetBlockID bid (js_index arr 0) (js_index arr 1) (js_index arr 2)) s))"

definition getTargetBlock :: "'w engine \<Rightarrow> jsval" where
  "getTargetBlock s = blockTargetLoc s"

definition getTargetBlockAdjacent :: "'w engine \<Rightarrow> jsval" where
  "getTargetBlockAdjacent s = blockPlacementLoc s"

subsection \<open>Player and camera\<close>

definition getPlayerPosition :: "'w collab \<Rightarrow> 'w engine \<Rightarrow> vec3" where
  "getPlayerPosition c s = playerEntity_getPosition c (ext s)"

text \<open>
  \<^verbatim>\<open>loc[1] += height * .9\<close> on the array that \<^verbatim>\<open>getPosition()\<close> returned, where
  \<^verbatim>\<open>height\<close> is \<^verbatim>\<open>bb.vec[1]\<close>.
\<close>

definition getPlayerEyePosition :: "'w collab \<Rightarrow> 'w engine \<Rightarrow> vec3" where
  "getPlayerEyePosition c s =
     (let height = fst (snd (playerEntity_bb_vec c (ext s)));
          (lx, ly, lz) = playerEntity_getPosition c (ext s)
      in (lx, ly + height * 0.9, lz))"

text \<open>
  \<^verbatim>\<open>vec3.fromValues(v.x, v.y, v.z)\<close> on the vector \<^verbatim>\<open>v\<close> that rendering returns.
\<close>

definition getCameraVector :: "'w collab \<Rightarrow> 'w engine \<Rightarrow> vec3" where
  "getCameraVector c s =
     (let (vx, vy, vz) = rendering_getCameraVector c (ext s)
      in vec3_fromValues c vx vy vz)"

subsection \<open>Picking and targeting\<close>

record pick_result =
  block :: jsval
  position :: vec3
  normal :: vec3

text \<open>\<^verbatim>\<open>Engine.prototype.pick\<close>; \<open>None\<close> is \<^verbatim>\<open>null\<close>.\<close>

definition pick ::
  "'w collab \<Rightarrow> 'w engine \<Rightarrow> jsval \<Rightarrow> jsval \<Rightarrow> jsval \<Rightarrow> pick_result option" where
  "pick c s pos vec dst =
     (if dst = Num 0 then None
      else
        let pos = js_or pos (vec3_val (getPlayerEyePosition c s));
            vec = js_or vec (vec3_val (getCameraVector c s));
            dst = js_or dst (blockTestDistance s);
            (hitBlock, hitPos, hitNorm) = traceWorldRayCollision c s pos vec dst
        in if truthy hitBlock
           then Some \<lparr>block = hitBlock, position = hitPos, normal = hitNorm\<rparr>
           else None)"

text \<open>\<^verbatim>\<open>Engine.prototype.setBlockTargets\<close>.\<close>

definition setBlockTargets :: "'w collab \<Rightarrow> 'w engine \<Rightarrow> 'w engine" where
  "setBlockTargets c s =
     (case pick c s Undefined Undefined Undefined of
        Some result \<Rightarrow>
          (let (p0, p1, p2) = position result;
               loc = (math_floor p0, math_floor p1, math_floor p2);
               norm = normal result;
               (l0, l1, l2) = loc;
               (n0, n1, n2) = norm
           in call c (HighlightBlockFace (Bool True) (vec3_val loc) (vec3_val norm))
                (s\<lparr>blockTargetLoc := vec3_val loc,
                   blockPlacementLoc := vec3_val (l0 + n0, l1 + n1, l2 + n2)\<rparr>))
      | None \<Rightarrow>
          call c (HighlightBlockFace (Bool False) Undefined Undefined)
            (s\<lparr>blockPlacementLoc := Null, blockTargetLoc := Null\<rparr>))"

definition setPlayerMesh :: "'w collab \<Rightarrow> jsval \<Rightarrow> jsval \<Rightarrow> 'w engine \<Rightarrow> 'w engine" where
  "setPlayerMesh c mesh meshOffset s = call c (SetPlayerMesh mesh meshOffset) s"

subsection \<open>Tick and render\<close>

definition tick :: "'w collab \<Rightarrow> 'w engine \<Rightarrow> 'w engine" where
  "tick c s =
     (let dt = tickRate s;
          s = call c (WorldTick dt) s;
          s = call c (RenderingTick dt) s;
          s = call c (ControlsTickZoom dt) s;
          s = call c (ControlsTickPhysics dt) s;
          s = call c (PhysicsTick dt) s;
          s = setBlockTargets c s;
          s = call c (EntitiesTick dt) s
      in call c (Emit ''tick'' dt) s)"

definition render :: "'w collab \<Rightarrow> jsval \<Rightarrow> 'w engine \<Rightarrow> 'w engine" where
  "render c framePart s =
     (let dt = js_mul framePart (tickRate s);
          s = (if truthy (hasPointerLock c (ext s)) \<or>
                  \<not> truthy (supportsPointerLock c (ext s)) \<or>
                  truthy (inputs_state_fire c (ext s))
               then call c ControlsTickCamera s
               else s);
          s = call c (InputsStateSet ''dy'' (Num 0)) s;
          s = call c (InputsStateSet ''dx'' (Num 0)) s;
          s = call c (UpdateEntitiesForRender dt) s
      in call c (RenderingRender dt) s)"

subsection \<open>The public operations\<close>

text \<open>
  The methods of \<^verbatim>\<open>Engine.prototype\<close>, and a step of the world outside between two
  calls (an input event, a listener, a subsystem's own timer) that touches nothing of
  the engine object.
\<close>

datatype 'w op =
    OpTick
  | OpRender jsval
  | OpGetBlock jsval jsval jsval
  | OpSetBlock jsval jsval jsval jsval
  | OpAddBlock jsval jsval jsval jsval
  | OpGetTargetBlock
  | OpGetTargetBlockAdjacent
  | OpGetPlayerPosition
  | OpGetPlayerEyePosition
  | OpGetCameraVector
  | OpPick jsval jsval jsval
  | OpSetBlockTargets
  | OpSetPlayerMesh jsval jsval
  | Outside "'w \<Rightarrow> 'w"

text \<open>
  The engine after an operation. The two block writers throw, if at all, on their first
  line, before anything is written; the readers change nothing.
\<close>

fun exec :: "'w collab \<Rightarrow> 'w op \<Rightarrow> 'w engine \<Rightarrow> 'w engine" where
  "exec c OpTick s = tick c s"
| "exec c (OpRender framePart) s = render c framePart s"
| "exec c (OpSetBlock bid x y z) s =
     (case setBlock c bid x y z s of Inl e \<Rightarrow> s | Inr s' \<Rightarrow> s')"
| "exec c (OpAddBlock bid x y z) s =
     (case addBlock c bid x y z s of Inl e \<Rightarrow> s | Inr s' \<Rightarrow> s')"
| "exec c OpSetBlockTargets s = setBlockTargets c s"
| "exec c (OpSetPlayerMesh mesh meshOffset) s = setPlayerMesh c mesh meshOffset s"
| "exec c (Outside f) s = s\<lparr>ext := f (ext s)\<rparr>"
| "exec c (OpGetBlock x y z) s = s"
| "exec c OpGetTargetBlock s = s"
| "exec c OpGetTargetBlockAdjacent s = s"
| "exec c OpGetPlayerPosition s = s"
| "exec c OpGetPlayerEyePosition s = s"
| "exec c OpGetCameraVector s = s"
| "exec c (OpPick pos vec dst) s = s"

text \<open>The states an engine \<open>e\<close> goes through under any sequence of operations.\<close>

inductive reachable :: "'w collab \<Rightarrow> 'w engine \<Rightarrow> 'w engine \<Rightarrow> bool" for c e where
  reachable_init: "reachable c e e"
| reachable_step: "reachable c e s \<Longrightarrow> reachable c e (exec c op s)"

text \<open>The subsystem a constructor call creates, and the order of creation in a log.\<close>

datatype subsystem =
  Registry | Container | Inputs | World | Rendering | Physics | Controls | Entities

fun created :: "event \<Rightarrow> subsystem option" where
  "created (CreateContainer opts) = Some Container"
| "created (CreateInputs opts) = Some Inputs"
| "created (CreateRegistry opts) = Some Registry"
| "created (CreateWorld opts) = Some World"
| "created (CreateRendering opts) = Some Rendering"
| "created (CreatePhysics opts) = Some Physics"
| "created (CreateControls opts) = Some Controls"
| "created (CreateEntities opts) = Some Entities"
| "created e = None"

definition construction_order :: "event list \<Rightarrow> subsystem list" where
  "construction_order es = List.map_filter created es"

section \<open>A sample world\<close>

text \<open>
  Collaborators small enough to run: a world that stores the blocks written to it, a
  player, a camera, the pointer and fire flags, and the voxels that entities occupy.
\<close>

record sample_world =
  blocks :: "((jsval \<times> jsval \<times> jsval) \<times> jsval) list"
  player_position :: vec3
  player_bb_vec :: vec3
  camera_vector :: vec3
  pointer_locked :: bool
  pointer_lock_supported :: bool
  fire :: bool
  occupied :: "(jsval \<times> jsval \<times> jsval) list"

definition sample_block :: "sample_world \<Rightarrow> jsval \<Rightarrow> jsval \<Rightarrow> jsval \<Rightarrow> jsval" where
  "sample_block w x y z = (case map_of (blocks w) (x, y, z) of None \<Rightarrow> Num 0 | Some b \<Rightarrow> b)"

fun sample_react :: "event \<Rightarrow> sample_world \<Rightarrow> sample_world" where
  "sample_react (WorldSetBlockID bid x y z) w = w\<lparr>blocks := ((x, y, z), bid) # blocks w\<rparr>"
| "sample_react e w = w"

text \<open>
  A ray oracle that knows two rays: one that starts inside voxel \<open>(5,5,5)\<close>, which it
  meets at distance 0, and the ray from \<open>(5,5,10)\<close> along \<open>(0,0,-1)\<close>, which enters
  that voxel through its face \<open>z = 6\<close> once it has gone more than 4 units. Like
  \<^verbatim>\<open>voxel-raycast\<close>, it returns what the block query answered for the voxel it hit.
\<close>

definition sample_raycast ::
  "(jsval \<Rightarrow> jsval \<Rightarrow> jsval \<Rightarrow> jsval) \<Rightarrow> jsval \<Rightarrow> jsval \<Rightarrow> jsval \<Rightarrow> jsval \<times> vec3 \<times> vec3" where
  "sample_raycast q pos vec dst =
     (let b = q (Num 5) (Num 5) (Num 5);
          far = (case dst of Num r \<Rightarrow> r | _ \<Rightarrow> 0)
      in if truthy b \<and> pos = Arr [Num 5.5, Num 5.5, Num 5.5] \<and> 0 \<le> far
         then (b, (5.5, 5.5, 5.5), (0, 0, 0))
         else if truthy b \<and> pos = Arr [Num 5, Num 5, Num 10] \<and>
                 vec = Arr [Num 0, Num 0, Num (-1)] \<and> 4 < far
         then (b, (5, 5, 5.99999999), (0, 0, 1))
         else (Num 0, (0, 0, 0), (0, 0, 0)))"

definition sample_collab :: "sample_world collab" where
  "sample_collab =
     \<lparr>react = sample_react,
      hasPointerLock = (\<lambda>w. Bool (pointer_locked w)),
      supportsPointerLock = (\<lambda>w. Bool (pointer_lock_supported w)),
      inputs_state_fire = (\<lambda>w. Bool (fire w)),
      isTerrainBlocked = (\<lambda>w x y z. Bool ((x, y, z) \<in> set (occupied w))),
      getBlockID = sample_block,
      getBlockSolidity = (\<lambda>w x y z. Bool (truthy (sample_block w x y z))),
      playerEntity_getPosition = player_position,
      playerEntity_bb_vec = player_bb_vec,
      rendering_getCameraVector = camera_vector,
      raycast = sample_raycast,
      vec3_fromValues = (\<lambda>x y z. (x, y, z))\<rparr>"

text \<open>
  One block of id 7 at \<open>(5,5,5)\<close>; the player stands at \<open>(5, 3.38, 10)\<close> with a box
  1.8 high, so that the eyes are at \<open>(5,5,10)\<close>, and looks along \<open>(0,0,-1)\<close>; the
  player's voxel \<open>(5,3,10)\<close> is occupied. The camera vectors of the samples have
  components 0, 1 and -1, which single precision holds exactly, so the sample
  \<open>vec3_fromValues\<close> returns its arguments.
\<close>

definition sample_start :: sample_world where
  "sample_start =
     \<lparr>blocks = [((Num 5, Num 5, Num 5), Num 7)],
      player_position = (5, 3.38, 10),
      player_bb_vec = (0.6, 1.8, 0.6),
      camera_vector = (0, 0, -1),
      pointer_locked = False,
      pointer_lock_supported = True,
      fire = False,
      occupied = [(Num 5, Num 3, Num 10)]\<rparr>"

text \<open>The sample engine, built from the module's defaults with no options.\<close>

definition sample_engine :: "sample_world engine" where
  "sample_engine = snd (Engine sample_collab sample_start defaults None)"

text \<open>The same engine while the player looks straight up, and while fire is held.\<close>

definition sample_looking_up :: "sample_world engine" where
  "sample_looking_up = sample_engine\<lparr>ext := sample_start\<lparr>camera_vector := (0, 1, 0)\<rparr>\<rparr>"


section \<open>Auxiliary notions\<close>

text \<open>
  Two values are both \<^verbatim>\<open>null\<close> or neither is, and both \<^verbatim>\<open>undefined\<close> or
  neither is.
\<close>

definition both_or_neither :: "jsval \<Rightarrow> jsval \<Rightarrow> bool" where
  "both_or_neither a b = ((a = Null \<longleftrightarrow> b = Null) \<and> (a = Undefined \<longleftrightarrow> b = Undefined))"

text \<open>A scalar coordinate: a number.\<close>

fun is_number :: "jsval \<Rightarrow> bool" where
  "is_number (Num r) = True"
| "is_number NaN = True"
| "is_number v = False"

section \<open>What a call leaves alone\<close>

lemma call_fields [simp]:
  "calls (call c e s) = calls s @ [e]"
  "ext (call c e s) = react c e (ext s)"
  "tickRate (call c e s) = tickRate s"
  "blockTestDistance (call c e s) = blockTestDistance s"
  "blockTargetLoc (call c e s) = blockTargetLoc s"
  "blockPlacementLoc (call c e s) = blockPlacementLoc s"
  by (simp_all add: call_def)

lemma call_all_fields [simp]:
  "calls (call_all c es s) = calls s @ es"
  "tickRate (call_all c es s) = tickRate s"
  "blockTestDistance (call_all c es s) = blockTestDistance s"
  "blockTargetLoc (call_all c es s) = blockTargetLoc s"
  "blockPlacementLoc (call_all c es s) = blockPlacementLoc s"
  by (induction es arbitrary: s) simp_all

lemma setBlockTargets_config [simp]:
  "tickRate (setBlockTargets c s) = tickRate s"
  "blockTestDistance (setBlockTargets c s) = blockTestDistance s"
  by (simp_all add: setBlockTargets_def Let_def split: option.split prod.split)

lemma setBlockTargets_calls:
  "\<exists>h l n. calls (setBlockTargets c s) = calls s @ [HighlightBlockFace h l n]"
  by (simp add: setBlockTargets_def Let_def split: option.split prod.split)

lemma setBlockTargets_targets:
  "(blockTargetLoc (setBlockTargets c s) = Null \<and>
    blockPlacementLoc (setBlockTargets c s) = Null) \<or>
   (\<exists>a b. blockTargetLoc (setBlockTargets c s) = Arr a \<and>
          blockPlacementLoc (setBlockTargets c s) = Arr b)"
  by (simp add: setBlockTargets_def Let_def split: option.split prod.split)

lemma tick_config [simp]:
  "tickRate (tick c s) = tickRate s"
  "blockTestDistance (tick c s) = blockTestDistance s"
  by (simp_all add: tick_def Let_def)

lemma tick_targets:
  "blockTargetLoc (tick c s) = blockTargetLoc (setBlockTargets c (call_all c
      [WorldTick (tickRate s), RenderingTick (tickRate s), ControlsTickZoom (tickRate s),
       ControlsTickPhysics (tickRate s), PhysicsTick (tickRate s)] s))"
  "blockPlacementLoc (tick c s) = blockPlacementLoc (setBlockTargets c (call_all c
      [WorldTick (tickRate s), RenderingTick (tickRate s), ControlsTickZoom (tickRate s),
       ControlsTickPhysics (tickRate s), PhysicsTick (tickRate s)] s))"
  by (simp_all add: tick_def Let_def)

lemma render_fields [simp]:
  "tickRate (render c f s) = tickRate s"
  "blockTestDistance (render c f s) = blockTestDistance s"
  "blockTargetLoc (render c f s) = blockTargetLoc s"
  "blockPlacementLoc (render c f s) = blockPlacementLoc s"
  by (simp_all add: render_def Let_def)

lemma setBlock_fields:
  "setBlock c b x y z s = Inr s' \<Longrightarrow>
     tickRate s' = tickRate s \<and> blockTestDistance s' = blockTestDistance s \<and>
     blockTargetLoc s' = blockTargetLoc s \<and> blockPlacementLoc s' = blockPlacementLoc s"
  by (auto simp: setBlock_def split: sum.splits)

lemma addBlock_fields:
  "addBlock c b x y z s = Inr s' \<Longrightarrow>
     tickRate s' = tickRate s \<and> blockTestDistance s' = blockTestDistance s \<and>
     blockTargetLoc s' = blockTargetLoc s \<and> blockPlacementLoc s' = blockPlacementLoc s"
  by (auto simp: addBlock_def split: sum.splits if_splits)

lemma exec_config [simp]:
  "tickRate (exec c op s) = tickRate s"
  "blockTestDistance (exec c op s) = blockTestDistance s"
  by (cases op; simp add: setPlayerMesh_def split: sum.split;
      blast dest: setBlock_fields addBlock_fields)+

lemma exec_targets:
  assumes "op \<noteq> OpTick" "op \<noteq> OpSetBlockTargets"
  shows "blockTargetLoc (exec c op s) = blockTargetLoc s \<and>
         blockPlacementLoc (exec c op s) = blockPlacementLoc s"
  using assms
  by (cases op; simp add: setPlayerMesh_def split: sum.split;
      blast dest: setBlock_fields addBlock_fields)

lemma reachable_config:
  "reachable c e s \<Longrightarrow> tickRate s = tickRate e \<and> blockTestDistance s = blockTestDistance e"
  by (induction rule: reachable.induct) simp_all

lemma Engine_fields:
  "tickRate (snd (Engine c w0 d opts)) = get_prop (extend_obj d opts) ''tickRate''"
  "blockTestDistance (snd (Engine c w0 d opts)) =
     js_or (get_prop (extend_obj d opts) ''blockTestDistance'') (Num 10)"
  "blockTargetLoc (snd (Engine c w0 d opts)) = Undefined"
  "blockPlacementLoc (snd (Engine c w0 d opts)) = Undefined"
  "fst (Engine c w0 d opts) = extend_obj d opts"
  by (simp_all add: Engine_def Let_def)

lemma exec_both_or_neither:
  assumes "both_or_neither (blockTargetLoc s) (blockPlacementLoc s)"
  shows "both_or_neither (blockTargetLoc (exec c op s)) (blockPlacementLoc (exec c op s))"
proof (cases "op = OpTick \<or> op = OpSetBlockTargets")
  case True
  then show ?thesis
    using setBlockTargets_targets [of c s]
      setBlockTargets_targets [of c "call_all c
        [WorldTick (tickRate s), RenderingTick (tickRate s), ControlsTickZoom (tickRate s),
         ControlsTickPhysics (tickRate s), PhysicsTick (tickRate s)] s"]
    by (auto simp: both_or_neither_def tick_targets)
next
  case False
  then show ?thesis using assms exec_targets [of op c s] by simp
qed

lemma reachable_both_or_neither:
  "reachable c e s \<Longrightarrow> both_or_neither (blockTargetLoc e) (blockPlacementLoc e) \<Longrightarrow>
   both_or_neither (blockTargetLoc s) (blockPlacementLoc s)"
  by (induction rule: reachable.induct) (simp_all add: exec_both_or_neither)

lemma eye_position_value:
  "vec3_val (getPlayerEyePosition c s) =
     (case (getPlayerPosition c s, playerEntity_bb_vec c (ext s)) of
        ((x, y, z), (w, h, d)) \<Rightarrow> Arr [Num x, Num (y + 0.9 * h), Num z])"
proof -
  obtain x y z where p: "playerEntity_getPosition c (ext s) = (x, y, z)"
    by (cases "playerEntity_getPosition c (ext s)") auto
  obtain w h d where b: "playerEntity_bb_vec c (ext s) = (w, h, d)"
    by (cases "playerEntity_bb_vec c (ext s)") auto
  show ?thesis
    by (simp add: getPlayerEyePosition_def getPlayerPosition_def p b)
qed

lemma camera_vector_value:
  "vec3_val (getCameraVector c s) =
     (case rendering_getCameraVector c (ext s) of
        (vx, vy, vz) \<Rightarrow> vec3_val (vec3_fromValues c vx vy vz))"
  by (simp add: getCameraVector_def split: prod.split)

subsection \<open>The sample engine, evaluated\<close>

lemma sample_engine_fields:
  "tickRate sample_engine = Num 30"
  "blockTestDistance sample_engine = Num 10"
  "blockTargetLoc sample_engine = Undefined"
  "blockPlacementLoc sample_engine = Undefined"
  "ext sample_engine = sample_start"
  by (simp_all add: sample_engine_def Engine_def Let_def extend_obj_def defaults_def
      get_prop_def js_or_def sample_collab_def call_def)

lemma sample_pick_hit:
  "pick sample_collab sample_engine Undefined Undefined Undefined =
     Some \<lparr>block = Bool True, position = (5, 5, 5.99999999), normal = (0, 0, 1)\<rparr>"
  by (simp add: pick_def sample_engine_fields js_or_def getPlayerEyePosition_def
      getCameraVector_def traceWorldRayCollision_def sample_collab_def sample_start_def
      sample_raycast_def sample_block_def)


section \<open>The fixed-timestep loop\<close>

text \<open>
  C1. \<^verbatim>\<open>tick()\<close> takes no delta. On an engine built by the constructor, after any
  sequence of operations, it calls \<^verbatim>\<open>World.tick\<close>, \<^verbatim>\<open>Rendering.tick\<close>,
  \<^verbatim>\<open>Controls.tickZoom\<close>, \<^verbatim>\<open>Controls.tickPhysics\<close> and \<^verbatim>\<open>Physics.tick\<close>, then
  recomputes the block targets (which tells rendering what to highlight), then calls
  \<^verbatim>\<open>Entities.tick\<close> and emits \<^verbatim>\<open>'tick'\<close>, in that order, each with the tick rate the
  constructor resolved from the options.
\<close>

theorem tick_fixed_step_order:
  assumes "reachable c (snd (Engine c w0 dflts opts)) s"
  shows "(let dt = get_prop (extend_obj dflts opts) ''tickRate'';
              before = [WorldTick dt, RenderingTick dt, ControlsTickZoom dt,
                        ControlsTickPhysics dt, PhysicsTick dt];
              after = [EntitiesTick dt, Emit ''tick'' dt]
          in tick c s = call_all c after (setBlockTargets c (call_all c before s)) \<and>
             (\<exists>h l n. calls (tick c s) =
                        calls s @ before @ [HighlightBlockFace h l n] @ after))"
proof -
  have dt: "tickRate s = get_prop (extend_obj dflts opts) ''tickRate''"
    using reachable_config [OF assms] by (simp add: Engine_fields)
  obtain h l n where
    "calls (setBlockTargets c (call_all c
        [WorldTick (tickRate s), RenderingTick (tickRate s), ControlsTickZoom (tickRate s),
         ControlsTickPhysics (tickRate s), PhysicsTick (tickRate s)] s)) =
     calls (call_all c
        [WorldTick (tickRate s), RenderingTick (tickRate s), ControlsTickZoom (tickRate s),
         ControlsTickPhysics (tickRate s), PhysicsTick (tickRate s)] s) @
       [HighlightBlockFace h l n]"
    using setBlockTargets_calls by blast
  then show ?thesis
    unfolding dt [symmetric] by (simp add: tick_def Let_def)
qed

theorem tick_fixed_step_order_witness:
  "reachable sample_collab sample_engine sample_engine \<and>
   calls (tick sample_collab sample_engine) =
     calls sample_engine @
       [WorldTick (Num 30), RenderingTick (Num 30), ControlsTickZoom (Num 30),
        ControlsTickPhysics (Num 30), PhysicsTick (Num 30),
        HighlightBlockFace (Bool True) (Arr [Num 5, Num 5, Num 5]) (Arr [Num 0, Num 0, Num 1]),
        EntitiesTick (Num 30), Emit ''tick'' (Num 30)]"
proof -
  have r: "reachable sample_collab (snd (Engine sample_collab sample_start defaults None))
             sample_engine"
    unfolding sample_engine_def by (rule reachable_init)
  have dt: "get_prop (extend_obj defaults None) ''tickRate'' = Num 30"
    by (simp add: extend_obj_def defaults_def get_prop_def)
  let ?mid = "call_all sample_collab
           [WorldTick (Num 30), RenderingTick (Num 30), ControlsTickZoom (Num 30),
            ControlsTickPhysics (Num 30), PhysicsTick (Num 30)] sample_engine"
  have mid: "ext ?mid = sample_start"
    by (simp add: sample_engine_fields sample_collab_def)
  have pk: "pick sample_collab ?mid Undefined Undefined Undefined =
     Some \<lparr>block = Bool True, position = (5, 5, 5.99999999), normal = (0, 0, 1)\<rparr>"
    using sample_pick_hit
    by (simp add: pick_def getPlayerEyePosition_def getCameraVector_def
        traceWorldRayCollision_def mid sample_engine_fields del: call_all.simps)
  have "tick sample_collab sample_engine =
      call_all sample_collab [EntitiesTick (Num 30), Emit ''tick'' (Num 30)]
       (setBlockTargets sample_collab ?mid)"
    using tick_fixed_step_order [OF r] by (simp add: dt Let_def del: call_all.simps)
  then show ?thesis
    using r by (simp add: sample_engine_def [symmetric] setBlockTargets_def pk math_floor_def
        del: call_all.simps)
qed

section \<open>Picking\<close>

text \<open>
  C2, as amended. When the distance argument is not exactly zero,
  \<^verbatim>\<open>pick(pos, vec, dist)\<close> starts from \<open>pos\<close>, or when that is missing from the
  player's position with 0.9 times the height of the bounding box added to \<open>y\<close>; it
  looks along \<open>vec\<close>, or when that is missing along the camera vector, which is
  \<^verbatim>\<open>vec3.fromValues\<close> of the components of rendering's vector; it goes as far as
  \<open>dist\<close>, or when that is missing as far as the engine's block-test distance. It runs
  the ray query bound to the world's solidity and returns \<^verbatim>\<open>null\<close> when the query's
  result is falsy; otherwise the \<open>block\<close> of the returned object is that result, the
  value the solidity-bound query returned and not a block id, and the other two fields
  are the hit position and the hit normal.
\<close>

theorem pick_resolves_defaults:
  assumes "dst \<noteq> Num 0"
  shows "pick c s pos vec dst =
     (let origin = (if truthy pos then pos
                    else case (getPlayerPosition c s, playerEntity_bb_vec c (ext s)) of
                           ((x, y, z), (w, h, d)) \<Rightarrow> Arr [Num x, Num (y + 0.9 * h), Num z]);
          direction = (if truthy vec then vec
                       else case rendering_getCameraVector c (ext s) of
                              (vx, vy, vz) \<Rightarrow> vec3_val (vec3_fromValues c vx vy vz));
          far = (if truthy dst then dst else blockTestDistance s);
          (b, p, n) = raycast c (getBlockSolidity c (ext s)) origin direction far
      in if truthy b then Some \<lparr>block = b, position = p, normal = n\<rparr> else None)"
  unfolding eye_position_value [symmetric] camera_vector_value [symmetric]
  using assms
  by (simp add: pick_def js_or_def traceWorldRayCollision_def)

theorem pick_resolves_defaults_witness:
  "Undefined \<noteq> Num 0 \<and>
   pick sample_collab sample_engine Undefined Undefined Undefined =
     Some \<lparr>block = Bool True, position = (5, 5, 5.99999999), normal = (0, 0, 1)\<rparr> \<and>
   pick sample_collab sample_looking_up Undefined Undefined Undefined = None \<and>
   pick sample_collab sample_looking_up Undefined (Arr [Num 0, Num 0, Num (-1)]) (Num 10) =
     Some \<lparr>block = Bool True, position = (5, 5, 5.99999999), normal = (0, 0, 1)\<rparr> \<and>
   pick sample_collab sample_engine Undefined Undefined (Num 3) = None"
proof -
  have u: "Undefined \<noteq> Num 0" and n10: "Num 10 \<noteq> Num 0" and n3: "Num 3 \<noteq> Num 0"
    by simp_all
  show ?thesis
    using pick_resolves_defaults [OF u, of sample_collab sample_engine Undefined Undefined]
      pick_resolves_defaults [OF u, of sample_collab sample_looking_up Undefined Undefined]
      pick_resolves_defaults [OF n10, of sample_collab sample_looking_up Undefined
        "Arr [Num 0, Num 0, Num (-1)]"]
      pick_resolves_defaults [OF n3, of sample_collab sample_engine Undefined Undefined]
    by (simp add: sample_looking_up_def sample_engine_fields getPlayerPosition_def
        sample_collab_def sample_start_def sample_raycast_def sample_block_def)
qed

text \<open>
  The claim as first stated has the hit block id in the result. In the sample world the
  voxel that the default ray hits holds block id 7, and the \<open>block\<close> that \<^verbatim>\<open>pick()\<close>
  returns is \<^verbatim>\<open>true\<close>, the world's solidity answer for that voxel.
\<close>

theorem pick_block_id_counterexample:
  "pick sample_collab sample_engine Undefined Undefined Undefined =
     Some \<lparr>block = Bool True, position = (5, 5, 5.99999999), normal = (0, 0, 1)\<rparr> \<and>
   getBlock sample_collab sample_engine (Num 5) (Num 5) (Num 5) = Inr (Num 7) \<and>
   Bool True \<noteq> Num 7"
proof -
  have "getBlock sample_collab sample_engine (Num 5) (Num 5) (Num 5) = Inr (Num 7)"
    by (simp add: getBlock_def arg_array_def sample_engine_fields sample_collab_def
        sample_start_def sample_block_def)
  then show ?thesis
    using sample_pick_hit by simp
qed

text \<open>
  C3. \<^verbatim>\<open>pick(origin, direction, 0)\<close> returns \<^verbatim>\<open>null\<close> whatever the origin, the
  direction and the world are; with the distance left out the ray query runs, as far
  as the engine's block-test distance.
\<close>

theorem pick_zero_distance:
  "pick c s pos vec (Num 0) = None \<and>
   pick c s pos vec Undefined =
     (let (b, p, n) = traceWorldRayCollision c s
                        (js_or pos (vec3_val (getPlayerEyePosition c s)))
                        (js_or vec (vec3_val (getCameraVector c s)))
                        (blockTestDistance s)
      in if truthy b then Some \<lparr>block = b, position = p, normal = n\<rparr> else None)"
  by (simp add: pick_def js_or_def Let_def)

text \<open>
  In the sample world a ray that starts inside the solid voxel meets it at distance 0:
  the ray query with distance 0 reports the hit, \<^verbatim>\<open>pick\<close> with distance 0 does not,
  and \<^verbatim>\<open>pick\<close> with no distance does.
\<close>

theorem pick_zero_distance_witness:
  "traceWorldRayCollision sample_collab sample_engine
       (Arr [Num 5.5, Num 5.5, Num 5.5]) (Arr [Num 0, Num 0, Num (-1)]) (Num 0) =
     (Bool True, (5.5, 5.5, 5.5), (0, 0, 0)) \<and>
   pick sample_collab sample_engine
       (Arr [Num 5.5, Num 5.5, Num 5.5]) (Arr [Num 0, Num 0, Num (-1)]) (Num 0) = None \<and>
   pick sample_collab sample_engine
       (Arr [Num 5.5, Num 5.5, Num 5.5]) (Arr [Num 0, Num 0, Num (-1)]) Undefined =
     Some \<lparr>block = Bool True, position = (5.5, 5.5, 5.5), normal = (0, 0, 0)\<rparr>"
  using pick_zero_distance [of sample_collab sample_engine
      "Arr [Num 5.5, Num 5.5, Num 5.5]" "Arr [Num 0, Num 0, Num (-1)]"]
  by (simp add: traceWorldRayCollision_def js_or_def sample_engine_fields
      sample_collab_def sample_start_def sample_raycast_def sample_block_def)



section \<open>The cached targets\<close>

text \<open>
  C5. In every state that an engine built by the constructor reaches through its
  operations, \<^verbatim>\<open>getTargetBlock()\<close> and \<^verbatim>\<open>getTargetBlockAdjacent()\<close> are both
  \<^verbatim>\<open>null\<close> or neither is (and, before the first tick, both are \<^verbatim>\<open>undefined\<close>);
  every operation other than \<^verbatim>\<open>tick\<close> and \<^verbatim>\<open>setBlockTargets\<close> leaves both as they
  were.
\<close>

theorem target_state_invariant:
  assumes "reachable c (snd (Engine c w0 dflts opts)) s"
  shows "(getTargetBlock s = Null \<longleftrightarrow> getTargetBlockAdjacent s = Null) \<and>
         (getTargetBlock s = Undefined \<longleftrightarrow> getTargetBlockAdjacent s = Undefined) \<and>
         (\<forall>op. op \<noteq> OpTick \<and> op \<noteq> OpSetBlockTargets \<longrightarrow>
            getTargetBlock (exec c op s) = getTargetBlock s \<and>
            getTargetBlockAdjacent (exec c op s) = getTargetBlockAdjacent s)"
proof -
  have "both_or_neither (blockTargetLoc s) (blockPlacementLoc s)"
    using reachable_both_or_neither [OF assms]
    by (simp add: Engine_fields both_or_neither_def)
  then show ?thesis
    using exec_targets [of _ c s]
    by (simp add: both_or_neither_def getTargetBlock_def getTargetBlockAdjacent_def)
qed

theorem target_state_invariant_witness:
  "reachable sample_collab sample_engine (tick sample_collab sample_engine) \<and>
   getTargetBlock (tick sample_collab sample_engine) = Arr [Num 5, Num 5, Num 5] \<and>
   getTargetBlockAdjacent (tick sample_collab sample_engine) = Arr [Num 5, Num 5, Num 6] \<and>
   (getTargetBlock (tick sample_collab sample_engine) = Null) =
     (getTargetBlockAdjacent (tick sample_collab sample_engine) = Null) \<and>
   getTargetBlock (render sample_collab (Num 0.5) (tick sample_collab sample_engine)) =
     getTargetBlock (tick sample_collab sample_engine) \<and>
   getTargetBlockAdjacent (render sample_collab (Num 0.5) (tick sample_collab sample_engine)) =
     getTargetBlockAdjacent (tick sample_collab sample_engine)"
proof -
  have r: "reachable sample_collab (snd (Engine sample_collab sample_start defaults None))
             (tick sample_collab sample_engine)"
    using reachable_step [OF reachable_init, where op = OpTick]
    by (simp add: sample_engine_def)
  have mid: "ext (call_all sample_collab
           [WorldTick (Num 30), RenderingTick (Num 30), ControlsTickZoom (Num 30),
            ControlsTickPhysics (Num 30), PhysicsTick (Num 30)] sample_engine) = sample_start"
    by (simp add: sample_engine_fields sample_collab_def)
  have pk: "pick sample_collab (call_all sample_collab
           [WorldTick (Num 30), RenderingTick (Num 30), ControlsTickZoom (Num 30),
            ControlsTickPhysics (Num 30), PhysicsTick (Num 30)] sample_engine)
           Undefined Undefined Undefined =
     Some \<lparr>block = Bool True, position = (5, 5, 5.99999999), normal = (0, 0, 1)\<rparr>"
    using sample_pick_hit
    by (simp add: pick_def getPlayerEyePosition_def getCameraVector_def
        traceWorldRayCollision_def mid sample_engine_fields del: call_all.simps)
  have t: "getTargetBlock (tick sample_collab sample_engine) = Arr [Num 5, Num 5, Num 5]"
    "getTargetBlockAdjacent (tick sample_collab sample_engine) = Arr [Num 5, Num 5, Num 6]"
    by (simp_all add: getTargetBlock_def getTargetBlockAdjacent_def tick_targets
        sample_engine_fields setBlockTargets_def pk math_floor_def del: call_all.simps)
  have "OpRender (Num 0.5) \<noteq> OpTick \<and> OpRender (Num 0.5) \<noteq> (OpSetBlockTargets :: sample_world op)"
    by simp
  then show ?thesis
    using target_state_invariant [OF r] r t
    by (auto simp: sample_engine_def [symmetric] getTargetBlock_def getTargetBlockAdjacent_def)
qed

section \<open>Block access\<close>

text \<open>
  C6. For a position that the first line of \<^verbatim>\<open>addBlock\<close> accepts: when
  \<^verbatim>\<open>Entities.isTerrainBlocked\<close> answers truthy, \<^verbatim>\<open>addBlock\<close> returns without an
  error and the engine, the world and the log are as before; otherwise \<^verbatim>\<open>addBlock\<close>
  does what \<^verbatim>\<open>setBlock\<close> does, and \<^verbatim>\<open>setBlock\<close> always makes the one call
  \<^verbatim>\<open>World.setBlockID\<close> with the id and the three coordinates.
\<close>

theorem addBlock_guard:
  assumes "arg_array x y z = Inr arr"
  shows "(truthy (isTerrainBlocked c (ext s) (js_index arr 0) (js_index arr 1) (js_index arr 2))
            \<longrightarrow> addBlock c bid x y z s = Inr s) \<and>
         (\<not> truthy (isTerrainBlocked c (ext s) (js_index arr 0) (js_index arr 1) (js_index arr 2))
            \<longrightarrow> addBlock c bid x y z s = setBlock c bid x y z s) \<and>
         setBlock c bid x y z s =
           Inr (call c (WorldSetBlockID bid (js_index arr 0) (js_index arr 1) (js_index arr 2)) s)"
  using assms by (simp add: addBlock_def setBlock_def)

theorem addBlock_guard_witness:
  "arg_array (Num 5) (Num 3) (Num 10) = Inr (Arr [Num 5, Num 3, Num 10]) \<and>
   truthy (isTerrainBlocked sample_collab (ext sample_engine) (Num 5) (Num 3) (Num 10)) \<and>
   addBlock sample_collab (Num 2) (Num 5) (Num 3) (Num 10) sample_engine = Inr sample_engine \<and>
   arg_array (Arr [Num 5, Num 6, Num 5]) Undefined Undefined = Inr (Arr [Num 5, Num 6, Num 5]) \<and>
   \<not> truthy (isTerrainBlocked sample_collab (ext sample_engine) (Num 5) (Num 6) (Num 5)) \<and>
   addBlock sample_collab (Num 2) (Arr [Num 5, Num 6, Num 5]) Undefined Undefined sample_engine =
     setBlock sample_collab (Num 2) (Arr [Num 5, Num 6, Num 5]) Undefined Undefined sample_engine \<and>
   setBlock sample_collab (Num 2) (Arr [Num 5, Num 6, Num 5]) Undefined Undefined sample_engine =
     Inr (call sample_collab (WorldSetBlockID (Num 2) (Num 5) (Num 6) (Num 5)) sample_engine)"
proof -
  have a: "arg_array (Num 5) (Num 3) (Num 10) = Inr (Arr [Num 5, Num 3, Num 10])"
    and b: "arg_array (Arr [Num 5, Num 6, Num 5]) Undefined Undefined =
              Inr (Arr [Num 5, Num 6, Num 5])"
    by (simp_all add: arg_array_def)
  have blocked: "truthy (isTerrainBlocked sample_collab (ext sample_engine)
                   (Num 5) (Num 3) (Num 10))"
    and free: "\<not> truthy (isTerrainBlocked sample_collab (ext sample_engine)
                   (Num 5) (Num 6) (Num 5))"
    by (simp_all add: sample_engine_fields sample_collab_def sample_start_def)
  show ?thesis
    using addBlock_guard [OF a, of sample_collab sample_engine "Num 2"]
      addBlock_guard [OF b, of sample_collab sample_engine "Num 2"] a b blocked free
    by simp
qed

text \<open>
  C9. For number coordinates, \<^verbatim>\<open>getBlock\<close> with the three-element array returns what
  \<^verbatim>\<open>getBlock\<close> with the three scalars returns, the world's answer for those
  coordinates; \<^verbatim>\<open>setBlock\<close> with the array makes the same world write as
  \<^verbatim>\<open>setBlock\<close> with the scalars.
\<close>

theorem block_access_container_or_scalars:
  assumes "is_number x"
  shows "getBlock c s (Arr [x, y, z]) u v = getBlock c s x y z \<and>
         getBlock c s x y z = Inr (getBlockID c (ext s) x y z) \<and>
         setBlock c bid (Arr [x, y, z]) u v s = setBlock c bid x y z s \<and>
         setBlock c bid x y z s = Inr (call c (WorldSetBlockID bid x y z) s)"
  using assms by (cases x) (simp_all add: getBlock_def setBlock_def arg_array_def)

theorem block_access_container_or_scalars_witness:
  "is_number (Num 5) \<and>
   getBlock sample_collab sample_engine (Arr [Num 5, Num 5, Num 5]) Undefined Undefined =
     Inr (Num 7) \<and>
   getBlock sample_collab sample_engine (Num 5) (Num 5) (Num 5) = Inr (Num 7) \<and>
   setBlock sample_collab (Num 2) (Arr [Num 5, Num 6, Num 5]) Undefined Undefined sample_engine =
     setBlock sample_collab (Num 2) (Num 5) (Num 6) (Num 5) sample_engine"
proof -
  have n: "is_number (Num 5)" by simp
  show ?thesis
    using block_access_container_or_scalars [OF n, of sample_collab sample_engine
        "Num 5" "Num 5" Undefined Undefined "Num 2"]
      block_access_container_or_scalars [OF n, of sample_collab sample_engine
        "Num 6" "Num 5" Undefined Undefined "Num 2"]
    by (simp add: sample_engine_fields sample_collab_def sample_start_def sample_block_def)
qed

section \<open>Rendering a frame\<close>



section \<open>Construction\<close>

text \<open>
  C8, as amended. The constructor creates each of the eight subsystems exactly once,
  in the order Container, Inputs, Registry, World, Rendering, Physics, Controls,
  Entities: the registry is the third to be created, not the first.
\<close>

theorem construction_order_Engine:
  "construction_order (calls (snd (Engine c w0 dflts opts))) =
     [Container, Inputs, Registry, World, Rendering, Physics, Controls, Entities]"
  by (simp add: Engine_def Let_def construction_order_def)

text \<open>The order with the registry first is not the order of the sample engine's log.\<close>

theorem construction_order_registry_first_counterexample:
  "construction_order (calls sample_engine) \<noteq>
     [Registry, Container, Inputs, World, Rendering, Physics, Controls, Entities]"
  by (simp add: sample_engine_def Engine_def Let_def construction_order_def)

subsection \<open>The block-test distance\<close>

text \<open>
  What the constructor stores: 10 whenever the option it reads, after \<^verbatim>\<open>extend\<close>, is
  falsy. That is so when the caller passes a falsy value other than \<^verbatim>\<open>undefined\<close>,
  and when the caller passes none and the defaults are those of the file.
\<close>

lemma get_prop_set_prop: "get_prop (set_prop k v t) k = v"
  by (induction t) (auto simp: get_prop_def)

lemma blockTestDistance_fallback:
  "\<not> truthy (get_prop (extend_obj dflts opts) ''blockTestDistance'') \<Longrightarrow>
   blockTestDistance (snd (Engine c w0 dflts opts)) = Num 10"
  by (simp add: Engine_fields js_or_def)

lemma blockTestDistance_falsy_option:
  "v \<noteq> Undefined \<Longrightarrow> \<not> truthy v \<Longrightarrow>
   blockTestDistance (snd (Engine c w0 dflts (Some [(''blockTestDistance'', v)]))) = Num 10"
  by (simp add: Engine_fields js_or_def extend_obj_def get_prop_set_prop)

lemma blockTestDistance_first_engine:
  "blockTestDistance (snd (Engine c w0 defaults None)) = Num 10"
  by (simp add: Engine_fields js_or_def extend_obj_def defaults_def get_prop_def)

text \<open>
  C10. The module's \<^verbatim>\<open>defaults\<close> object is the target of \<^verbatim>\<open>extend\<close>, so it keeps
  the options of every engine built so far. An engine built with \<^verbatim>\<open>{}\<close> has the
  block-test distance 10 when it is the first, and 5 when it comes after an engine
  built with \<^verbatim>\<open>{blockTestDistance: 5}\<close>.
\<close>

theorem second_engine_inherits_blockTestDistance:
  "blockTestDistance (snd (Engine c w1 defaults (Some []))) = Num 10 \<and>
   blockTestDistance (snd (Engine c w2
      (fst (Engine c w1 defaults (Some [(''blockTestDistance'', Num 5)]))) (Some []))) = Num 5"
  by (simp add: Engine_fields extend_obj_def defaults_def get_prop_def js_or_def)

end
